theory Spec2Isabelle
  imports Complex_Main "HOL-Library.AList" "HOL-Library.Word"
begin

section \<open>The invoice relay of \<^verbatim>\<open>main.py\<close>\<close>

text \<open>
  \<^verbatim>\<open>main.py\<close> holds three coroutines: \<^verbatim>\<open>extract_first_page\<close> (the renderer adapter),
  \<^verbatim>\<open>process_invoice\<close> (the extraction adapter) and \<^verbatim>\<open>process_document\<close> (the function of
  the route \<^verbatim>\<open>POST /api/process-document\<close>). They are embedded as pure functions. What the
  code obtains from libraries outside the repository (the recognition client, PyMuPDF,
  \<^verbatim>\<open>json.loads\<close>, \<^verbatim>\<open>base64.b64encode\<close>, the serialisation done by \<^verbatim>\<open>JSONResponse\<close>) is a
  parameter, the record \<open>services\<close>; each call that can raise returns a sum, \<open>Inl\<close> the
  exception. Calls to the logger are left out: they change no value that is returned.
\<close>

subsection \<open>Python values\<close>

type_synonym bytes = "8 word list"

text \<open>
  The exceptions the code distinguishes. \<^verbatim>\<open>ImportError\<close> has a handler of its own in
  \<^verbatim>\<open>_extract\<close>; \<^verbatim>\<open>HTTPException\<close> is what the two request functions raise; every other
  subclass of \<^verbatim>\<open>Exception\<close> is \<open>OtherError\<close>. The string is the message, the number the
  status code.
\<close>

datatype exn = ImportError string | HTTPException nat string | OtherError string

text \<open>\<^verbatim>\<open>str(n)\<close> of a natural number: its decimal digits.\<close>

definition digit :: "nat \<Rightarrow> char" where
  "digit n = ''0123456789'' ! n"

function str_nat :: "nat \<Rightarrow> string" where
  "str_nat n = (if n < 10 then [digit n] else str_nat (n div 10) @ [digit (n mod 10)])"
  by pat_completeness auto
termination
  by (relation "measure (\<lambda>n. n)") auto

declare str_nat.simps [simp del]

text \<open>
  \<^verbatim>\<open>str(e)\<close>: the message of an exception; for an \<^verbatim>\<open>HTTPException\<close> the framework's
  \<^verbatim>\<open>__str__\<close>, which is \<^verbatim>\<open>f"{self.status_code}: {self.detail}"\<close>.
\<close>

fun str_exn :: "exn \<Rightarrow> string" where
  "str_exn (ImportError m) = m"
| "str_exn (HTTPException status_code detail) = str_nat status_code @ '': '' @ detail"
| "str_exn (OtherError m) = m"

text \<open>A \<^verbatim>\<open>datetime.date\<close>; \<^verbatim>\<open>str\<close> of it is the ISO form \<^verbatim>\<open>%04d-%02d-%02d\<close>.\<close>

record date =
  year :: nat
  month :: nat
  day :: nat

definition zfill :: "nat \<Rightarrow> string \<Rightarrow> string" where
  "zfill w s = replicate (w - length s) (CHR ''0'') @ s"

definition str_date :: "date \<Rightarrow> string" where
  "str_date d = zfill 4 (str_nat (year d)) @ ''-'' @ zfill 2 (str_nat (month d)) @ ''-''
     @ zfill 2 (str_nat (day d))"

subsection \<open>The recognition result\<close>

text \<open>
  A field of a recognised document. The code probes each representation with
  \<^verbatim>\<open>hasattr(field, a) and field.a is not None\<close>: \<open>None\<close> stands for an attribute that is missing
  or holds \<^verbatim>\<open>None\<close>, which the code does not tell apart. The confidence is a float that the
  code only copies; \<^verbatim>\<open>0.0\<close> and \<^verbatim>\<open>1.0\<close> are the only constants, and no arithmetic is done.
\<close>

record document_field =
  value_string :: "string option"
  value_date :: "date option"
  content :: "string option"
  confidence :: real

text \<open>
  A document as the client library builds it: \<^verbatim>\<open>document.fields\<close> is a dict from field
  names to fields (here \<open>doc_fields\<close>), and every field has a confidence.
\<close>

record analyzed_document =
  doc_fields :: "string \<rightharpoonup> document_field"

text \<open>
  \<open>documents\<close> is \<open>None\<close> when the result has no attribute \<^verbatim>\<open>documents\<close> or when it holds
  \<^verbatim>\<open>None\<close>.
\<close>

record analyze_result =
  documents :: "analyzed_document list option"

text \<open>
  A field as the client of line 7, \<^verbatim>\<open>azure.ai.formrecognizer\<close>, builds it: a
  \<^verbatim>\<open>DocumentField\<close> with the attributes \<^verbatim>\<open>value_type\<close> and \<^verbatim>\<open>value\<close> (the typed value, here
  \<open>typed_value\<close>), \<^verbatim>\<open>content\<close> (here \<open>content_text\<close>) and \<^verbatim>\<open>confidence\<close> (here
  \<open>field_confidence\<close>). It has no attribute \<^verbatim>\<open>value_string\<close> or \<^verbatim>\<open>value_date\<close>, so both
  \<^verbatim>\<open>hasattr\<close> tests of lines 159 and 161 are false on it: \<open>as_probed\<close> is what the code finds.
\<close>

datatype field_value = ValueString string | ValueDate date

record client_field =
  typed_value :: "field_value option"
  content_text :: "string option"
  field_confidence :: real

definition as_probed :: "client_field \<Rightarrow> document_field" where
  "as_probed f =
     \<lparr>value_string = None, value_date = None, content = content_text f,
      confidence = field_confidence f\<rparr>"

subsection \<open>The rendering library\<close>

record pixmap =
  tobytes :: "string \<Rightarrow> exn + bytes"

record page =
  get_pixmap :: "real \<times> real \<Rightarrow> bool \<Rightarrow> exn + pixmap"

type_synonym pdf = "page list"

subsection \<open>The extracted data and the response content\<close>

text \<open>
  An entry \<^verbatim>\<open>{"value": v, "confidence": c}\<close> is the pair \<open>(v, c)\<close>. \<^verbatim>\<open>document_data\<close> is a
  Python dict, which keeps insertion order: an association list, assigned to with
  \<^const>\<open>AList.update\<close> (an existing key keeps its place, a new key goes to the end).
\<close>

type_synonym field_result = "string option \<times> real"

type_synonym document_data = "(string \<times> field_result) list"

text \<open>
  The dict \<^verbatim>\<open>response_data\<close> of lines 207 to 212. The parsed form of the metadata is opaque
  to the code, so its type is a parameter.
\<close>

record 'j response_data =
  r_filename :: string
  r_extracted_data :: document_data
  r_thumbnail :: "string option"
  r_metadata :: 'j

subsection \<open>External services\<close>

text \<open>
  \<open>begin_analyze_document model document\<close> is the outcome of
  \<^verbatim>\<open>document_analysis_client.begin_analyze_document(model, document=...).result()\<close>;
  \<open>import_fitz\<close> is the exception that \<^verbatim>\<open>import fitz\<close> raises, if any; \<open>fitz_open stream
  filetype\<close> is \<^verbatim>\<open>fitz.open(stream=..., filetype=...)\<close>. \<open>serialize_error content\<close> is the
  exception that \<^verbatim>\<open>JSONResponse(content=...)\<close> raises, if any: the constructor serialises
  the content, and refuses a float that is not finite (\<^verbatim>\<open>json.loads\<close> reads \<^verbatim>\<open>NaN\<close> and
  \<^verbatim>\<open>1e999\<close> as such floats) and a string that has no UTF-8 encoding.
\<close>

record 'j services =
  begin_analyze_document :: "string \<Rightarrow> bytes \<Rightarrow> exn + analyze_result"
  json_loads :: "string \<Rightarrow> exn + 'j"
  import_fitz :: "exn option"
  fitz_open :: "bytes \<Rightarrow> string \<Rightarrow> exn + pdf"
  b64encode :: "bytes \<Rightarrow> string"
  serialize_error :: "'j response_data \<Rightarrow> exn option"

subsection \<open>\<^verbatim>\<open>extract_first_page\<close>\<close>

text \<open>The body of the \<^verbatim>\<open>try\<close> block of \<^verbatim>\<open>_extract\<close>.\<close>

definition extract_try :: "'j services \<Rightarrow> bytes \<Rightarrow> exn + string option" where
  "extract_try env file_content =
     (case import_fitz env of
        Some e \<Rightarrow> Inl e
      | None \<Rightarrow>
         (case fitz_open env file_content ''pdf'' of
            Inl e \<Rightarrow> Inl e
          | Inr pdf \<Rightarrow>
             if length pdf = 0 then Inr None
             else
               (case get_pixmap (pdf ! 0) (2, 2) False of
                  Inl e \<Rightarrow> Inl e
                | Inr pix \<Rightarrow>
                   (case tobytes pix ''png'' of
                      Inl e \<Rightarrow> Inl e
                    | Inr img_bytes \<Rightarrow> Inr (Some (b64encode env img_bytes))))))"

text \<open>
  \<^verbatim>\<open>_extract\<close> (here \<open>inner_extract\<close>): the \<^verbatim>\<open>try\<close> block under its two handlers, \<^verbatim>\<open>except ImportError\<close> and
  \<^verbatim>\<open>except Exception\<close>, which both return \<^verbatim>\<open>None\<close>.
\<close>

definition inner_extract :: "'j services \<Rightarrow> bytes \<Rightarrow> exn + string option" where
  "inner_extract env file_content =
     (case extract_try env file_content of
        Inr thumbnail \<Rightarrow> Inr thumbnail
      | Inl (ImportError m) \<Rightarrow> Inr None
      | Inl e \<Rightarrow> Inr None)"

text \<open>\<^verbatim>\<open>extract_first_page\<close> runs \<^verbatim>\<open>_extract\<close> in the executor and returns its result.\<close>

definition extract_first_page :: "'j services \<Rightarrow> bytes \<Rightarrow> exn + string option" where
  "extract_first_page env file_content = inner_extract env file_content"

subsection \<open>\<^verbatim>\<open>process_invoice\<close>\<close>

definition field_mapping :: "(string \<times> string) list" where
  "field_mapping =
     [(''InvoiceId'', ''PV Number''),
      (''InvoiceDate'', ''Date Prepared''),
      (''RemittanceAddressRecipient'', ''Supplier or Company'')]"

text \<open>Lines 132 to 143: the dict before the documents are read.\<close>

definition initial_data :: document_data where
  "initial_data =
     AList.update ''Date Prepared'' (None, 0)
       (AList.update ''Supplier or Company'' (None, 0)
         (AList.update ''PV Number'' (None, 0)
           (AList.update ''Document Type'' (Some ''Payable Voucher'', 1) [])))"

text \<open>Lines 159 to 166: the value of a field.\<close>

definition extract_value :: "document_field \<Rightarrow> string option" where
  "extract_value field =
     (case value_string field of
        Some s \<Rightarrow> Some s
      | None \<Rightarrow>
         (case value_date field of
            Some d \<Rightarrow> Some (str_date d)
          | None \<Rightarrow>
             (case content field of
                Some c \<Rightarrow> Some c
              | None \<Rightarrow> None)))"

text \<open>Lines 155 to 171: one round of the inner loop.\<close>

definition process_field ::
  "(string \<rightharpoonup> document_field) \<Rightarrow> document_data \<Rightarrow> string \<times> string \<Rightarrow> document_data" where
  "process_field flds document_data m =
     (case m of (api_field, display_field) \<Rightarrow>
        (case flds api_field of
           None \<Rightarrow> document_data
         | Some field \<Rightarrow>
            AList.update display_field (extract_value field, confidence field) document_data))"

text \<open>Lines 148 to 172: the body of the loop over the documents.\<close>

definition process_fields :: "document_data \<Rightarrow> analyzed_document \<Rightarrow> document_data" where
  "process_fields document_data document =
     foldl (process_field (doc_fields document)) document_data field_mapping"

text \<open>Lines 132 to 175: what the \<^verbatim>\<open>try\<close> block returns for a recognition result.\<close>

definition remap_result :: "analyze_result \<Rightarrow> document_data" where
  "remap_result result =
     (case documents result of
        None \<Rightarrow> initial_data
      | Some docs \<Rightarrow>
         if docs = [] then initial_data else foldl process_fields initial_data docs)"

definition process_invoice :: "'j services \<Rightarrow> bytes \<Rightarrow> string \<Rightarrow> exn + document_data" where
  "process_invoice env file_content filename =
     (case begin_analyze_document env ''prebuilt-invoice'' file_content of
        Inl e \<Rightarrow> Inl (HTTPException 500 (str_exn e))
      | Inr result \<Rightarrow> Inr (remap_result result))"

subsection \<open>\<^verbatim>\<open>process_document\<close>\<close>

text \<open>
  The multipart form: the upload (its name and the bytes that \<^verbatim>\<open>file.read()\<close> returns),
  the metadata string and the token.
\<close>

record request =
  file_name :: string
  file_bytes :: bytes
  metadata :: string
  token :: string

text \<open>A \<^verbatim>\<open>JSONResponse\<close>, whose status code is 200; \<open>body\<close> is its content.\<close>

record 'j json_response =
  status_code :: nat
  body :: "'j response_data"
  headers :: "(string \<times> string) list"

text \<open>
  \<^verbatim>\<open>asyncio.gather\<close> of the two coroutines: both results, or the exception that one of them
  raised.
\<close>

definition gather :: "exn + 'a \<Rightarrow> exn + 'b \<Rightarrow> exn + ('a \<times> 'b)" where
  "gather a b =
     (case a of
        Inl e \<Rightarrow> Inl e
      | Inr x \<Rightarrow> (case b of Inl e \<Rightarrow> Inl e | Inr y \<Rightarrow> Inr (x, y)))"

text \<open>
  Lines 189 to 212: the dict \<^verbatim>\<open>response_data\<close>, or the exception raised before it is
  built.
\<close>

definition response_data_of :: "'j services \<Rightarrow> request \<Rightarrow> exn + 'j response_data" where
  "response_data_of env req =
     (let file_content = file_bytes req in
      case json_loads env (metadata req) of
        Inl e \<Rightarrow> Inl e
      | Inr metadata_dict \<Rightarrow>
         (case gather (process_invoice env file_content (file_name req))
                 (extract_first_page env file_content) of
            Inl e \<Rightarrow> Inl e
          | Inr (extracted_data, thumbnail) \<Rightarrow>
             Inr \<lparr>r_filename = file_name req,
                  r_extracted_data = extracted_data,
                  r_thumbnail = thumbnail,
                  r_metadata = metadata_dict\<rparr>))"

text \<open>
  Lines 189 to 221, the \<^verbatim>\<open>try\<close> block: \<^verbatim>\<open>JSONResponse(content=response_data, ...)\<close> is
  inside it, and serialises the content when it is constructed.
\<close>

definition process_document_try :: "'j services \<Rightarrow> request \<Rightarrow> exn + 'j json_response" where
  "process_document_try env req =
     (case response_data_of env req of
        Inl e \<Rightarrow> Inl e
      | Inr response_data \<Rightarrow>
         (case serialize_error env response_data of
            Some e \<Rightarrow> Inl e
          | None \<Rightarrow>
             Inr \<lparr>status_code = 200,
                  body = response_data,
                  headers = [(''Access-Control-Allow-Origin'', ''*''),
                             (''Access-Control-Allow-Methods'', ''POST, OPTIONS''),
                             (''Access-Control-Allow-Headers'', ''*'')]\<rparr>))"

text \<open>The \<^verbatim>\<open>try\<close> block under its handler, lines 223 to 225.\<close>

definition process_document :: "'j services \<Rightarrow> request \<Rightarrow> exn + 'j json_response" where
  "process_document env req =
     (case process_document_try env req of
        Inl e \<Rightarrow> Inl (HTTPException 500 (str_exn e))
      | Inr response \<Rightarrow> Inr response)"

text \<open>
  The route of lines 181 to 186. \<^verbatim>\<open>metadata\<close> and \<^verbatim>\<open>token\<close> are declared \<^verbatim>\<open>Form(...)\<close>, that
  is, required: for a form field that is missing or empty the framework answers 422 and
  does not call the function. A \<open>request\<close> has its upload; an absent form field is the
  empty string.
\<close>

datatype 'j answer = Unprocessable | Handled "exn + 'j json_response"

definition api_process_document :: "'j services \<Rightarrow> request \<Rightarrow> 'j answer" where
  "api_process_document env req =
     (if metadata req = [] \<or> token req = [] then Unprocessable
      else Handled (process_document env req))"

section \<open>Notions the properties are stated with\<close>

text \<open>
  The field under a source name in the last document of a sequence that has one: the
  documents after it have no field of that name.
\<close>

fun last_field :: "string \<Rightarrow> analyzed_document list \<Rightarrow> document_field option" where
  "last_field api_field [] = None"
| "last_field api_field (d # ds) =
     (case last_field api_field ds of Some f \<Rightarrow> Some f | None \<Rightarrow> doc_fields d api_field)"

definition display_fields :: "string list" where
  "display_fields = [''Document Type'', ''PV Number'', ''Supplier or Company'', ''Date Prepared'']"

subsection \<open>Sample inputs\<close>

definition sample_id :: document_field where
  "sample_id = \<lparr>value_string = Some ''PV-17'', value_date = Some \<lparr>year = 2024, month = 1, day = 2\<rparr>,
     content = Some ''PV - 17'', confidence = 9 / 10\<rparr>"

definition sample_date :: document_field where
  "sample_date = \<lparr>value_string = None, value_date = Some \<lparr>year = 2024, month = 3, day = 7\<rparr>,
     content = Some ''7 March 2024'', confidence = 4 / 5\<rparr>"

definition sample_id_raw :: document_field where
  "sample_id_raw = \<lparr>value_string = None, value_date = None, content = Some ''PV-18'',
     confidence = 1 / 2\<rparr>"

definition sample_docs :: "analyzed_document list" where
  "sample_docs =
     [\<lparr>doc_fields = [''InvoiceId'' \<mapsto> sample_id, ''InvoiceDate'' \<mapsto> sample_date]\<rparr>,
      \<lparr>doc_fields = [''InvoiceId'' \<mapsto> sample_id_raw]\<rparr>,
      \<lparr>doc_fields = Map.empty\<rparr>]"

definition sample_pixmap :: pixmap where
  "sample_pixmap =
     \<lparr>tobytes = (\<lambda>fmt. if fmt = ''png'' then Inr [0x89, 0x50, 0x4E, 0x47]
                        else Inl (OtherError ''unknown format''))\<rparr>"

definition sample_page :: page where
  "sample_page = \<lparr>get_pixmap = (\<lambda>matrix alpha. Inr sample_pixmap)\<rparr>"

text \<open>
  JSON values, as far as the samples need them; \<open>JNaN\<close> is the float that \<^verbatim>\<open>json.loads\<close>
  returns for the literal \<^verbatim>\<open>NaN\<close>.
\<close>

datatype json = JInt int | JNaN | JArray "json list"

text \<open>
  Sample services: recognition fails on an empty document; the metadata that parses is
  \<^verbatim>\<open>[1, 2]\<close> and \<^verbatim>\<open>NaN\<close>; an empty stream does not open, a stream of one byte opens with
  no pages; a content whose metadata is not a number does not serialise.
\<close>

definition sample_services :: "json services" where
  "sample_services =
     \<lparr>begin_analyze_document =
        (\<lambda>model document.
           if document = [] then Inl (OtherError ''Invalid request'')
           else Inr \<lparr>documents = Some sample_docs\<rparr>),
      json_loads =
        (\<lambda>s. if s = ''[1, 2]'' then Inr (JArray [JInt 1, JInt 2])
             else if s = ''NaN'' then Inr JNaN
             else Inl (OtherError ''Expecting value: line 1 column 1 (char 0)'')),
      import_fitz = None,
      fitz_open =
        (\<lambda>stream filetype.
           if stream = [] then Inl (OtherError ''cannot open empty stream'')
           else if length stream = 1 then Inr []
           else Inr [sample_page]),
      b64encode = (\<lambda>img. if img = [0x89, 0x50, 0x4E, 0x47] then ''iVBORw=='' else []),
      serialize_error =
        (\<lambda>content.
           if r_metadata content = JNaN
           then Some (OtherError ''Out of range float values are not JSON compliant'')
           else None)\<rparr>"

definition sample_request :: request where
  "sample_request =
     \<lparr>file_name = ''invoice.pdf'', file_bytes = [0x25, 0x50, 0x44, 0x46], metadata = ''[1, 2]'',
      token = ''secret''\<rparr>"

subsection \<open>Failure of the rendering\<close>

text \<open>
  The rendering fails when PyMuPDF cannot be imported, when the bytes do not open as a PDF,
  when the document has no page, or when rasterising the first page or encoding the image
  raises.
\<close>

definition render_failure :: "'j services \<Rightarrow> bytes \<Rightarrow> bool" where
  "render_failure env file_content =
     (import_fitz env \<noteq> None \<or>
      (case fitz_open env file_content ''pdf'' of
         Inl e \<Rightarrow> True
       | Inr [] \<Rightarrow> True
       | Inr (page # rest) \<Rightarrow>
          (case get_pixmap page (2, 2) False of
             Inl e \<Rightarrow> True
           | Inr pix \<Rightarrow> isl (tobytes pix ''png''))))"

definition no_pages_request :: request where
  "no_pages_request = sample_request\<lparr>file_bytes := [0x25]\<rparr>"

definition no_fitz_services :: "json services" where
  "no_fitz_services = sample_services\<lparr>import_fitz := Some (ImportError ''No module named fitz'')\<rparr>"

definition nan_request :: request where
  "nan_request = no_pages_request\<lparr>metadata := ''NaN''\<rparr>"

subsection \<open>A result as the client builds it\<close>

definition client_id :: client_field where
  "client_id =
     \<lparr>typed_value = Some (ValueString ''PV-17''), content_text = Some ''PV - 17'',
      field_confidence = 9 / 10\<rparr>"

definition client_date :: client_field where
  "client_date =
     \<lparr>typed_value = Some (ValueDate \<lparr>year = 2024, month = 3, day = 7\<rparr>),
      content_text = Some ''7 March 2024'', field_confidence = 4 / 5\<rparr>"

definition client_services :: "json services" where
  "client_services =
     sample_services
       \<lparr>begin_analyze_document :=
          (\<lambda>model document.
             Inr \<lparr>documents =
                   Some [\<lparr>doc_fields = [''InvoiceId'' \<mapsto> as_probed client_id,
                                         ''InvoiceDate'' \<mapsto> as_probed client_date]\<rparr>]\<rparr>)\<rparr>"

section \<open>Properties of the field remap\<close>

lemma keys_initial_data: "map fst initial_data = display_fields"
  by (simp add: initial_data_def display_fields_def)

lemma keys_process_field:
  "map fst document_data = display_fields \<Longrightarrow> m \<in> set field_mapping \<Longrightarrow>
   map fst (process_field flds document_data m) = display_fields"
  by (auto simp: process_field_def field_mapping_def display_fields_def update_keys
      split: option.splits)

lemma keys_foldl_process_field:
  "map fst document_data = display_fields \<Longrightarrow> set ms \<subseteq> set field_mapping \<Longrightarrow>
   map fst (foldl (process_field flds) document_data ms) = display_fields"
  by (induction ms arbitrary: document_data) (simp_all add: keys_process_field)

lemma keys_process_fields:
  "map fst document_data = display_fields \<Longrightarrow>
   map fst (process_fields document_data document) = display_fields"
  by (simp add: process_fields_def keys_foldl_process_field)

lemma keys_foldl_process_fields:
  "map fst document_data = display_fields \<Longrightarrow>
   map fst (foldl process_fields document_data docs) = display_fields"
  by (induction docs arbitrary: document_data) (simp_all add: keys_process_fields)

lemma keys_remap_result: "map fst (remap_result result) = display_fields"
  by (simp add: remap_result_def keys_initial_data keys_foldl_process_fields
      split: option.splits)

lemma map_of_process_fields:
  "map_of (process_fields document_data document) k =
     (if k = ''PV Number'' then
        (case doc_fields document ''InvoiceId'' of
           None \<Rightarrow> map_of document_data k
         | Some f \<Rightarrow> Some (extract_value f, confidence f))
      else if k = ''Date Prepared'' then
        (case doc_fields document ''InvoiceDate'' of
           None \<Rightarrow> map_of document_data k
         | Some f \<Rightarrow> Some (extract_value f, confidence f))
      else if k = ''Supplier or Company'' then
        (case doc_fields document ''RemittanceAddressRecipient'' of
           None \<Rightarrow> map_of document_data k
         | Some f \<Rightarrow> Some (extract_value f, confidence f))
      else map_of document_data k)"
  by (simp add: process_fields_def field_mapping_def process_field_def update_conv'
      split: option.splits)

lemma map_of_process_fields_mapped:
  assumes "(api_field, display_field) \<in> set field_mapping"
  shows "map_of (process_fields document_data document) display_field =
     (case doc_fields document api_field of
        None \<Rightarrow> map_of document_data display_field
      | Some f \<Rightarrow> Some (extract_value f, confidence f))"
  using assms by (auto simp: map_of_process_fields field_mapping_def)

lemma map_of_foldl_process_fields:
  assumes "(api_field, display_field) \<in> set field_mapping"
  shows "map_of (foldl process_fields document_data docs) display_field =
     (case last_field api_field docs of
        None \<Rightarrow> map_of document_data display_field
      | Some f \<Rightarrow> Some (extract_value f, confidence f))"
proof (induction docs arbitrary: document_data)
  case Nil
  show ?case by simp
next
  case (Cons d ds)
  show ?case
    by (simp add: Cons.IH map_of_process_fields_mapped [OF assms] split: option.splits)
qed

lemma map_of_foldl_document_type:
  "map_of (foldl process_fields document_data docs) ''Document Type'' =
   map_of document_data ''Document Type''"
  by (induction docs arbitrary: document_data) (simp_all add: map_of_process_fields)

lemma last_field_append:
  "last_field api_field (pre @ post) =
     (case last_field api_field post of Some f \<Rightarrow> Some f | None \<Rightarrow> last_field api_field pre)"
  by (induction pre) (simp_all split: option.splits)

lemma last_field_None:
  "(last_field api_field docs = None) = (\<forall>d \<in> set docs. doc_fields d api_field = None)"
  by (induction docs) (auto split: option.splits)

lemma map_of_initial_data:
  "map_of initial_data k =
     (if k = ''Date Prepared'' \<or> k = ''Supplier or Company'' \<or> k = ''PV Number'' then Some (None, 0)
      else if k = ''Document Type'' then Some (Some ''Payable Voucher'', 1) else None)"
  by (simp add: initial_data_def)

lemma remap_result_foldl:
  "remap_result result =
     foldl process_fields initial_data (case documents result of None \<Rightarrow> [] | Some docs \<Rightarrow> docs)"
  by (simp add: remap_result_def split: option.splits)

lemma map_of_remap_result_mapped:
  assumes "(api_field, display_field) \<in> set field_mapping"
  shows "map_of (remap_result result) display_field =
     (case last_field api_field (case documents result of None \<Rightarrow> [] | Some docs \<Rightarrow> docs) of
        None \<Rightarrow> Some (None, 0)
      | Some f \<Rightarrow> Some (extract_value f, confidence f))"
proof -
  have "map_of initial_data display_field = Some (None, 0)"
    using assms by (auto simp: map_of_initial_data field_mapping_def)
  then show ?thesis
    by (simp add: remap_result_foldl map_of_foldl_process_fields [OF assms]
        split: option.splits)
qed

lemma sample_analyze:
  "begin_analyze_document sample_services ''prebuilt-invoice'' (file_bytes sample_request) =
   Inr \<lparr>documents = Some sample_docs\<rparr>"
  by (simp add: sample_services_def sample_request_def)

lemma sample_mapping:
  "(''InvoiceId'', ''PV Number'') \<in> set field_mapping"
  "(''InvoiceDate'', ''Date Prepared'') \<in> set field_mapping"
  "(''RemittanceAddressRecipient'', ''Supplier or Company'') \<in> set field_mapping"
  by (simp_all add: field_mapping_def)

text \<open>
  Claim C1. Whatever result the recognition call returns, \<^verbatim>\<open>process_invoice\<close> returns a
  mapping whose keys are exactly \<^verbatim>\<open>Document Type\<close>, \<^verbatim>\<open>PV Number\<close>, \<^verbatim>\<open>Supplier or Company\<close>
  and \<^verbatim>\<open>Date Prepared\<close>, each once, in this order.
\<close>

theorem extracted_data_four_keys:
  assumes "begin_analyze_document env ''prebuilt-invoice'' file_content = Inr result"
  shows "\<exists>extracted_data.
           process_invoice env file_content filename = Inr extracted_data \<and>
           map fst extracted_data =
             [''Document Type'', ''PV Number'', ''Supplier or Company'', ''Date Prepared'']"
  using assms by (simp add: process_invoice_def keys_remap_result display_fields_def)

theorem extracted_data_four_keys_witness:
  "\<exists>extracted_data.
     process_invoice sample_services (file_bytes sample_request) ''invoice.pdf'' = Inr extracted_data \<and>
     map fst extracted_data =
       [''Document Type'', ''PV Number'', ''Supplier or Company'', ''Date Prepared'']"
  using extracted_data_four_keys [OF sample_analyze] by simp

lemma extract_value_as_probed: "extract_value (as_probed f) = content_text f"
  by (simp add: extract_value_def as_probed_def split: option.splits)

text \<open>
  Claim C2, which the code misses. The claim puts the typed string first and the typed date
  second. On a field as the imported client builds it the code finds neither, and writes
  the raw content although a typed value is there: for an \<^verbatim>\<open>InvoiceId\<close> with the typed
  string \<^verbatim>\<open>PV-17\<close> and the content \<^verbatim>\<open>PV - 17\<close> the entry \<^verbatim>\<open>PV Number\<close> holds \<^verbatim>\<open>PV - 17\<close>, and
  for an \<^verbatim>\<open>InvoiceDate\<close> with the typed date 2024-03-07 and the content \<^verbatim>\<open>7 March 2024\<close> the
  entry \<^verbatim>\<open>Date Prepared\<close> holds \<^verbatim>\<open>7 March 2024\<close>. The confidence is copied.
\<close>

theorem typed_value_not_used:
  "typed_value client_id = Some (ValueString ''PV-17'') \<and>
   typed_value client_date = Some (ValueDate \<lparr>year = 2024, month = 3, day = 7\<rparr>) \<and>
   process_invoice client_services [0x25, 0x50, 0x44, 0x46] ''invoice.pdf'' =
     Inr [(''Document Type'', Some ''Payable Voucher'', 1),
          (''PV Number'', Some ''PV - 17'', 9 / 10),
          (''Supplier or Company'', None, 0),
          (''Date Prepared'', Some ''7 March 2024'', 4 / 5)]"
  by (simp add: client_id_def client_date_def client_services_def process_invoice_def
      remap_result_def process_fields_def field_mapping_def process_field_def
      extract_value_def initial_data_def as_probed_def)

text \<open>
  Claim C3. When no document of the recognition result has a mapped source field (also when
  the result has no documents at all), the output key of that field is present and holds
  the value null with confidence 0.0.
\<close>

theorem absent_field_default:
  assumes "begin_analyze_document env ''prebuilt-invoice'' file_content = Inr result"
    and "(api_field, display_field) \<in> set field_mapping"
    and "\<forall>docs. documents result = Some docs \<longrightarrow> (\<forall>d \<in> set docs. doc_fields d api_field = None)"
  shows "\<exists>extracted_data.
           process_invoice env file_content filename = Inr extracted_data \<and>
           map_of extracted_data display_field = Some (None, 0)"
proof -
  have "last_field api_field (case documents result of None \<Rightarrow> [] | Some docs \<Rightarrow> docs) = None"
    using assms(3) by (cases "documents result") (simp_all add: last_field_None)
  then show ?thesis
    using assms(1) by (simp add: process_invoice_def map_of_remap_result_mapped [OF assms(2)])
qed

theorem absent_field_default_witness:
  "\<exists>extracted_data.
     process_invoice sample_services (file_bytes sample_request) ''invoice.pdf'' = Inr extracted_data \<and>
     map_of extracted_data ''Supplier or Company'' = Some (None, 0)"
  using absent_field_default [OF sample_analyze sample_mapping(3)]
  by (simp add: sample_docs_def)

text \<open>
  Claim C4. Whatever the bytes, the file name and the recognition result, the key
  \<^verbatim>\<open>Document Type\<close> holds the value \<^verbatim>\<open>Payable Voucher\<close> with confidence 1.0.
\<close>

theorem document_type_constant:
  assumes "begin_analyze_document env ''prebuilt-invoice'' file_content = Inr result"
  shows "\<exists>extracted_data.
           process_invoice env file_content filename = Inr extracted_data \<and>
           map_of extracted_data ''Document Type'' = Some (Some ''Payable Voucher'', 1)"
  using assms
  by (simp add: process_invoice_def remap_result_foldl map_of_foldl_document_type
      map_of_initial_data)

theorem document_type_constant_witness:
  "\<exists>extracted_data.
     process_invoice sample_services (file_bytes sample_request) ''invoice.pdf'' = Inr extracted_data \<and>
     map_of extracted_data ''Document Type'' = Some (Some ''Payable Voucher'', 1)"
  using document_type_constant [OF sample_analyze] by simp

text \<open>
  Claim C10. With several documents, a mapped output field holds the value and the
  confidence of the source field in the last document that has it: the documents before
  it are overwritten, the documents after it, which lack the field, leave the entry as it
  is.
\<close>

theorem last_document_wins:
  assumes "begin_analyze_document env ''prebuilt-invoice'' file_content = Inr result"
    and "documents result = Some (earlier @ document # later)"
    and "(api_field, display_field) \<in> set field_mapping"
    and "doc_fields document api_field = Some field"
    and "\<forall>d \<in> set later. doc_fields d api_field = None"
  shows "\<exists>extracted_data.
           process_invoice env file_content filename = Inr extracted_data \<and>
           map_of extracted_data display_field = Some (extract_value field, confidence field)"
proof -
  have "last_field api_field later = None"
    using assms(5) by (simp add: last_field_None)
  then have "last_field api_field (earlier @ document # later) = Some field"
    using assms(4) by (simp add: last_field_append)
  then show ?thesis
    using assms(1,2) by (simp add: process_invoice_def map_of_remap_result_mapped [OF assms(3)])
qed

theorem last_document_wins_witness:
  "\<exists>extracted_data.
     process_invoice sample_services (file_bytes sample_request) ''invoice.pdf'' = Inr extracted_data \<and>
     map_of extracted_data ''PV Number'' = Some (Some ''PV-18'', 1 / 2)"
  using last_document_wins [OF sample_analyze, of "[sample_docs ! 0]" "sample_docs ! 1"
      "[sample_docs ! 2]" "''InvoiceId''" "''PV Number''" sample_id_raw "''invoice.pdf''"]
  by (simp add: sample_docs_def field_mapping_def sample_id_raw_def extract_value_def)

section \<open>Properties of the renderer and the route\<close>

lemma inner_extract_returns: "\<exists>thumbnail. inner_extract env file_content = Inr thumbnail"
  by (simp add: inner_extract_def split: sum.splits exn.splits)

lemma extract_try_failure:
  assumes "render_failure env file_content"
  shows "extract_try env file_content = Inr None \<or> isl (extract_try env file_content)"
  using assms
  by (auto simp: render_failure_def extract_try_def split: sum.splits list.splits option.splits)

lemma extract_first_page_failure:
  assumes "render_failure env file_content"
  shows "extract_first_page env file_content = Inr None"
  using extract_try_failure [OF assms]
  by (auto simp: extract_first_page_def inner_extract_def isl_def split: sum.splits exn.splits)

lemma response_data_of_returns:
  assumes "json_loads env (metadata req) = Inr metadata_dict"
    and "begin_analyze_document env ''prebuilt-invoice'' (file_bytes req) = Inr result"
    and "extract_first_page env (file_bytes req) = Inr thumbnail"
  shows "response_data_of env req =
     Inr \<lparr>r_filename = file_name req, r_extracted_data = remap_result result,
          r_thumbnail = thumbnail, r_metadata = metadata_dict\<rparr>"
  using assms by (simp add: response_data_of_def process_invoice_def gather_def)

lemma response_data_of_metadata:
  assumes "json_loads env (metadata req) = Inr metadata_dict"
    and "response_data_of env req = Inr response_data"
  shows "r_metadata response_data = metadata_dict"
  using assms by (auto simp: response_data_of_def Let_def split: sum.splits prod.splits)

lemma process_document_body:
  assumes "process_document env req = Inr response"
  shows "response_data_of env req = Inr (body response)"
  using assms
  by (auto simp: process_document_def process_document_try_def split: sum.splits option.splits)

lemma process_document_returns:
  assumes "response_data_of env req = Inr response_data"
    and "serialize_error env response_data = None"
  shows "process_document env req =
     Inr \<lparr>status_code = 200, body = response_data,
          headers = [(''Access-Control-Allow-Origin'', ''*''),
                     (''Access-Control-Allow-Methods'', ''POST, OPTIONS''),
                     (''Access-Control-Allow-Headers'', ''*'')]\<rparr>"
  using assms by (simp add: process_document_def process_document_try_def)

lemma process_document_raises:
  assumes "response_data_of env req = Inl e"
  shows "process_document env req = Inl (HTTPException 500 (str_exn e))"
  using assms by (simp add: process_document_def process_document_try_def)

lemma api_process_document_handled:
  assumes "metadata req \<noteq> []" and "token req \<noteq> []"
  shows "api_process_document env req = Handled (process_document env req)"
  using assms by (simp add: api_process_document_def)

lemma response_data_of_token:
  "response_data_of env (req\<lparr>token := t\<rparr>) = response_data_of env req"
  by (simp add: response_data_of_def Let_def cong: sum.case_cong)

lemma sample_json:
  "json_loads sample_services (metadata sample_request) = Inr (JArray [JInt 1, JInt 2])"
  by (simp add: sample_services_def sample_request_def)

lemma sample_form: "metadata sample_request \<noteq> []" "token sample_request \<noteq> []"
  by (simp_all add: sample_request_def)

lemma sample_thumbnail:
  "extract_first_page sample_services (file_bytes sample_request) = Inr (Some ''iVBORw=='')"
  by (simp add: extract_first_page_def inner_extract_def extract_try_def sample_services_def
      sample_request_def sample_page_def sample_pixmap_def)

lemma sample_handled:
  "api_process_document sample_services sample_request =
     Handled (Inr \<lparr>status_code = 200,
       body = \<lparr>r_filename = ''invoice.pdf'',
               r_extracted_data = remap_result \<lparr>documents = Some sample_docs\<rparr>,
               r_thumbnail = Some ''iVBORw=='', r_metadata = JArray [JInt 1, JInt 2]\<rparr>,
       headers = [(''Access-Control-Allow-Origin'', ''*''),
                  (''Access-Control-Allow-Methods'', ''POST, OPTIONS''),
                  (''Access-Control-Allow-Headers'', ''*'')]\<rparr>)"
proof -
  have d: "response_data_of sample_services sample_request =
      Inr \<lparr>r_filename = ''invoice.pdf'',
           r_extracted_data = remap_result \<lparr>documents = Some sample_docs\<rparr>,
           r_thumbnail = Some ''iVBORw=='', r_metadata = JArray [JInt 1, JInt 2]\<rparr>"
    using response_data_of_returns [OF sample_json sample_analyze sample_thumbnail]
    by (simp add: sample_request_def)
  have s: "serialize_error sample_services
      \<lparr>r_filename = ''invoice.pdf'',
       r_extracted_data = remap_result \<lparr>documents = Some sample_docs\<rparr>,
       r_thumbnail = Some ''iVBORw=='', r_metadata = JArray [JInt 1, JInt 2]\<rparr> = None"
    by (simp add: sample_services_def)
  show ?thesis
    by (simp add: api_process_document_handled [OF sample_form] process_document_returns [OF d s])
qed

text \<open>
  Claim C5, as stated, fails: a request whose rendering fails, whose metadata \<^verbatim>\<open>NaN\<close>
  parses and whose recognition call returns is answered 500, because the content does not
  serialise. So is a request whose rendering fails and whose recognition call raises, and
  one with an empty token is answered 422.
\<close>

theorem render_failure_not_always_200:
  "render_failure sample_services (file_bytes nan_request) \<and>
   extract_first_page sample_services (file_bytes nan_request) = Inr None \<and>
   json_loads sample_services (metadata nan_request) = Inr JNaN \<and>
   begin_analyze_document sample_services ''prebuilt-invoice'' (file_bytes nan_request) =
     Inr \<lparr>documents = Some sample_docs\<rparr> \<and>
   api_process_document sample_services nan_request =
     Handled (Inl (HTTPException 500 ''Out of range float values are not JSON compliant'')) \<and>
   render_failure sample_services (file_bytes (sample_request\<lparr>file_bytes := []\<rparr>)) \<and>
   api_process_document sample_services (sample_request\<lparr>file_bytes := []\<rparr>) =
     Handled (Inl (HTTPException 500 ''500: Invalid request'')) \<and>
   api_process_document sample_services (no_pages_request\<lparr>token := []\<rparr>) = Unprocessable"
proof -
  have f: "render_failure sample_services (file_bytes nan_request)"
    by (simp add: render_failure_def sample_services_def nan_request_def no_pages_request_def)
  have t: "extract_first_page sample_services (file_bytes nan_request) = Inr None"
    using f by (rule extract_first_page_failure)
  have j: "json_loads sample_services (metadata nan_request) = Inr JNaN"
    by (simp add: sample_services_def nan_request_def)
  have r: "begin_analyze_document sample_services ''prebuilt-invoice'' (file_bytes nan_request) =
      Inr \<lparr>documents = Some sample_docs\<rparr>"
    by (simp add: sample_services_def nan_request_def no_pages_request_def)
  have s: "serialize_error sample_services
      \<lparr>r_filename = file_name nan_request,
       r_extracted_data = remap_result \<lparr>documents = Some sample_docs\<rparr>,
       r_thumbnail = None, r_metadata = JNaN\<rparr> =
      Some (OtherError ''Out of range float values are not JSON compliant'')"
    by (simp add: sample_services_def)
  have "process_document sample_services nan_request =
      Inl (HTTPException 500 ''Out of range float values are not JSON compliant'')"
    by (simp add: process_document_def process_document_try_def
        response_data_of_returns [OF j r t] s)
  moreover have "metadata nan_request \<noteq> []" "token nan_request \<noteq> []"
    by (simp_all add: nan_request_def no_pages_request_def sample_request_def)
  ultimately have n: "api_process_document sample_services nan_request =
      Handled (Inl (HTTPException 500 ''Out of range float values are not JSON compliant''))"
    by (simp add: api_process_document_handled)
  have g: "render_failure sample_services (file_bytes (sample_request\<lparr>file_bytes := []\<rparr>))"
    by (simp add: render_failure_def sample_services_def)
  have "response_data_of sample_services (sample_request\<lparr>file_bytes := []\<rparr>) =
      Inl (HTTPException 500 ''Invalid request'')"
    by (simp add: response_data_of_def process_invoice_def gather_def sample_services_def
        sample_request_def)
  then have e: "api_process_document sample_services (sample_request\<lparr>file_bytes := []\<rparr>) =
      Handled (Inl (HTTPException 500 ''500: Invalid request''))"
    by (simp add: api_process_document_def process_document_raises sample_request_def
        str_nat.simps digit_def)
  have u: "api_process_document sample_services (no_pages_request\<lparr>token := []\<rparr>) =
      Unprocessable"
    by (simp add: api_process_document_def)
  show ?thesis
    using f t j r n g e u by simp
qed

text \<open>
  Claim C5, amended. \<^verbatim>\<open>extract_first_page\<close> returns for every input and never raises; when
  the rendering fails (the library is missing, the input does not open, the document has
  no page, or rasterising or encoding raises) it returns \<^verbatim>\<open>None\<close>; and a request whose
  rendering fails, while its form fields are not empty, its metadata parses, the recognition
  call returns and the response content serialises, is still answered with status 200, the
  extracted data with its four keys, and a null thumbnail.
\<close>

theorem render_failure_contained:
  "(\<forall>file_content. \<exists>thumbnail. extract_first_page env file_content = Inr thumbnail) \<and>
   (render_failure env file_content \<longrightarrow> extract_first_page env file_content = Inr None) \<and>
   (render_failure env (file_bytes req) \<and>
    metadata req \<noteq> [] \<and> token req \<noteq> [] \<and>
    json_loads env (metadata req) = Inr metadata_dict \<and>
    begin_analyze_document env ''prebuilt-invoice'' (file_bytes req) = Inr result \<and>
    serialize_error env
      \<lparr>r_filename = file_name req, r_extracted_data = remap_result result,
       r_thumbnail = None, r_metadata = metadata_dict\<rparr> = None \<longrightarrow>
      (\<exists>response.
         api_process_document env req = Handled (Inr response) \<and>
         status_code response = 200 \<and>
         r_thumbnail (body response) = None \<and>
         process_invoice env (file_bytes req) (file_name req) =
           Inr (r_extracted_data (body response)) \<and>
         map fst (r_extracted_data (body response)) =
           [''Document Type'', ''PV Number'', ''Supplier or Company'', ''Date Prepared'']))"
proof (intro conjI impI allI)
  fix file_content
  show "\<exists>thumbnail. extract_first_page env file_content = Inr thumbnail"
    by (simp add: extract_first_page_def inner_extract_returns)
next
  assume "render_failure env file_content"
  then show "extract_first_page env file_content = Inr None"
    by (rule extract_first_page_failure)
next
  assume a: "render_failure env (file_bytes req) \<and>
    metadata req \<noteq> [] \<and> token req \<noteq> [] \<and>
    json_loads env (metadata req) = Inr metadata_dict \<and>
    begin_analyze_document env ''prebuilt-invoice'' (file_bytes req) = Inr result \<and>
    serialize_error env
      \<lparr>r_filename = file_name req, r_extracted_data = remap_result result,
       r_thumbnail = None, r_metadata = metadata_dict\<rparr> = None"
  then have t: "extract_first_page env (file_bytes req) = Inr None"
    by (simp add: extract_first_page_failure)
  have d: "response_data_of env req =
      Inr \<lparr>r_filename = file_name req, r_extracted_data = remap_result result,
           r_thumbnail = None, r_metadata = metadata_dict\<rparr>"
    using a t by (simp add: response_data_of_returns)
  have "api_process_document env req = Handled (process_document env req)"
    using a by (simp add: api_process_document_handled)
  with a show "\<exists>response.
         api_process_document env req = Handled (Inr response) \<and>
         status_code response = 200 \<and>
         r_thumbnail (body response) = None \<and>
         process_invoice env (file_bytes req) (file_name req) =
           Inr (r_extracted_data (body response)) \<and>
         map fst (r_extracted_data (body response)) =
           [''Document Type'', ''PV Number'', ''Supplier or Company'', ''Date Prepared'']"
    by (simp add: process_document_returns [OF d] process_invoice_def keys_remap_result
        display_fields_def)
qed

theorem render_failure_contained_witness:
  "render_failure sample_services (file_bytes no_pages_request) \<and>
   extract_first_page sample_services (file_bytes no_pages_request) = Inr None \<and>
   (\<exists>response.
      api_process_document sample_services no_pages_request = Handled (Inr response) \<and>
      status_code response = 200 \<and>
      r_thumbnail (body response) = None) \<and>
   render_failure no_fitz_services (file_bytes sample_request) \<and>
   extract_first_page no_fitz_services (file_bytes sample_request) = Inr None"
proof -
  have f: "render_failure sample_services (file_bytes no_pages_request)"
    by (simp add: render_failure_def sample_services_def no_pages_request_def)
  have n: "metadata no_pages_request \<noteq> []" "token no_pages_request \<noteq> []"
    by (simp_all add: no_pages_request_def sample_request_def)
  have j: "json_loads sample_services (metadata no_pages_request) = Inr (JArray [JInt 1, JInt 2])"
    by (simp add: sample_services_def no_pages_request_def sample_request_def)
  have r: "begin_analyze_document sample_services ''prebuilt-invoice''
      (file_bytes no_pages_request) = Inr \<lparr>documents = Some sample_docs\<rparr>"
    by (simp add: sample_services_def no_pages_request_def)
  have s: "serialize_error sample_services
      \<lparr>r_filename = file_name no_pages_request,
       r_extracted_data = remap_result \<lparr>documents = Some sample_docs\<rparr>,
       r_thumbnail = None, r_metadata = JArray [JInt 1, JInt 2]\<rparr> = None"
    by (simp add: sample_services_def)
  have g: "render_failure no_fitz_services (file_bytes sample_request)"
    by (simp add: render_failure_def no_fitz_services_def)
  show ?thesis
    using render_failure_contained [of sample_services "file_bytes no_pages_request"
        no_pages_request "JArray [JInt 1, JInt 2]" "\<lparr>documents = Some sample_docs\<rparr>"]
      render_failure_contained [of no_fitz_services "file_bytes sample_request"] f n j r s g
    by blast
qed




text \<open>
  Claim C8. When the metadata string parses, the \<^verbatim>\<open>metadata\<close> of the response content is the
  parsed form itself, in every content that is built and in every response that is sent;
  the content is built whenever the recognition call returns, and it is sent when
  moreover the form fields are not empty and the content serialises.
\<close>

theorem metadata_passed_through:
  assumes "json_loads env (metadata req) = Inr metadata_dict"
  shows "(\<forall>response_data. response_data_of env req = Inr response_data \<longrightarrow>
            r_metadata response_data = metadata_dict) \<and>
         (\<forall>response. api_process_document env req = Handled (Inr response) \<longrightarrow>
            r_metadata (body response) = metadata_dict) \<and>
         (\<forall>result. begin_analyze_document env ''prebuilt-invoice'' (file_bytes req) = Inr result \<longrightarrow>
            (\<exists>response_data. response_data_of env req = Inr response_data \<and>
               (metadata req \<noteq> [] \<and> token req \<noteq> [] \<and>
                serialize_error env response_data = None \<longrightarrow>
                  (\<exists>response. api_process_document env req = Handled (Inr response) \<and>
                     body response = response_data))))"
proof (intro conjI allI impI)
  fix response_data
  assume "response_data_of env req = Inr response_data"
  with assms show "r_metadata response_data = metadata_dict"
    by (rule response_data_of_metadata)
next
  fix response
  assume "api_process_document env req = Handled (Inr response)"
  then have "process_document env req = Inr response"
    by (simp add: api_process_document_def split: if_splits)
  then have "response_data_of env req = Inr (body response)"
    by (rule process_document_body)
  with assms show "r_metadata (body response) = metadata_dict"
    by (rule response_data_of_metadata)
next
  fix result
  assume r: "begin_analyze_document env ''prebuilt-invoice'' (file_bytes req) = Inr result"
  obtain thumbnail where t: "extract_first_page env (file_bytes req) = Inr thumbnail"
    using inner_extract_returns [of env "file_bytes req"] by (auto simp: extract_first_page_def)
  let ?d = "\<lparr>r_filename = file_name req, r_extracted_data = remap_result result,
             r_thumbnail = thumbnail, r_metadata = metadata_dict\<rparr>"
  have d: "response_data_of env req = Inr ?d"
    by (rule response_data_of_returns [OF assms r t])
  have "metadata req \<noteq> [] \<and> token req \<noteq> [] \<and> serialize_error env ?d = None \<longrightarrow>
      (\<exists>response. api_process_document env req = Handled (Inr response) \<and> body response = ?d)"
    by (simp add: api_process_document_def process_document_returns [OF d])
  with d show "\<exists>response_data. response_data_of env req = Inr response_data \<and>
      (metadata req \<noteq> [] \<and> token req \<noteq> [] \<and> serialize_error env response_data = None \<longrightarrow>
        (\<exists>response. api_process_document env req = Handled (Inr response) \<and>
           body response = response_data))"
    by blast
qed

theorem metadata_passed_through_witness:
  "\<exists>response. api_process_document sample_services sample_request = Handled (Inr response) \<and>
     r_metadata (body response) = JArray [JInt 1, JInt 2]"
  using metadata_passed_through [OF sample_json] sample_handled
  by simp

text \<open>
  Claim C9, as stated, fails: of two requests that differ in the token only, the one with
  the empty token is answered 422 and the other is not.
\<close>

theorem empty_token_is_422:
  "api_process_document sample_services (sample_request\<lparr>token := []\<rparr>) = Unprocessable \<and>
   api_process_document sample_services (sample_request\<lparr>token := []\<rparr>) \<noteq>
     api_process_document sample_services sample_request"
  by (simp add: sample_handled) (simp add: api_process_document_def)

text \<open>
  Claim C9, amended. The answer to a request does not depend on its token as long as the
  token is not empty: two requests that differ only in their tokens, neither of them
  empty, get the same response or the same error.
\<close>

theorem token_ignored:
  assumes "token req \<noteq> []" and "t \<noteq> []"
  shows "api_process_document env (req\<lparr>token := t\<rparr>) = api_process_document env req"
  using assms
  by (simp add: api_process_document_def process_document_def process_document_try_def
      response_data_of_token)

theorem token_ignored_witness:
  "api_process_document sample_services (sample_request\<lparr>token := ''other''\<rparr>) =
   api_process_document sample_services sample_request"
  using token_ignored [where env = sample_services and req = sample_request and t = "''other''"]
  by (simp add: sample_request_def)

end
